theory Spec2Isabelle
  imports Main
begin

section \<open>JavaScript values\<close>

text \<open>
  The values the client library and the proxy server pass around: arguments of the
  exported functions, parsed request bodies, decoded response bodies. Strings are byte
  lists holding the UTF-8 encoding of the JavaScript string. Numbers are the integers
  that JavaScript prints in plain decimal (below \<open>10\<^sup>2\<^sup>1\<close> in absolute value).
  An object is the list of its own properties in the order it enumerates them, one entry
  per key.
\<close>

datatype jsval =
    JUndefined
  | JNull
  | JBool bool
  | JNum int
  | JStr string
  | JArr "jsval list"
  | JObj "(string \<times> jsval) list"

text \<open>What \<^verbatim>\<open>if (v)\<close>, \<^verbatim>\<open>!v\<close> and \<^verbatim>\<open>v || w\<close> test.\<close>

fun truthy :: "jsval \<Rightarrow> bool" where
  "truthy JUndefined = False"
| "truthy JNull = False"
| "truthy (JBool b) = b"
| "truthy (JNum n) = (n \<noteq> 0)"
| "truthy (JStr s) = (s \<noteq> [])"
| "truthy (JArr xs) = True"
| "truthy (JObj kvs) = True"

definition js_or :: "jsval \<Rightarrow> jsval \<Rightarrow> jsval" where
  "js_or a b = (if truthy a then a else b)"

text \<open>A parameter default \<^verbatim>\<open>(x = d)\<close> applies when the argument is undefined.\<close>

definition default_param :: "jsval \<Rightarrow> jsval \<Rightarrow> jsval" where
  "default_param d v = (if v = JUndefined then d else v)"

text \<open>Reading an own property; a key the value does not carry reads as undefined.\<close>

fun get_prop :: "jsval \<Rightarrow> string \<Rightarrow> jsval" where
  "get_prop (JObj kvs) k = (case map_of kvs k of Some v \<Rightarrow> v | None \<Rightarrow> JUndefined)"
| "get_prop v k = JUndefined"

text \<open>\<^verbatim>\<open>obj.k = v\<close>: an existing key keeps its place, a new one goes last.\<close>

fun set_entry :: "string \<Rightarrow> jsval \<Rightarrow> (string \<times> jsval) list \<Rightarrow> (string \<times> jsval) list" where
  "set_entry k v [] = [(k, v)]"
| "set_entry k v ((k', v') # kvs) =
     (if k' = k then (k, v) # kvs else (k', v') # set_entry k v kvs)"

fun set_prop :: "jsval \<Rightarrow> string \<Rightarrow> jsval \<Rightarrow> jsval" where
  "set_prop (JObj kvs) k v = JObj (set_entry k v kvs)"
| "set_prop w k v = w"

datatype js_error = JsError (error_message: string)

text \<open>
  \<^verbatim>\<open>const { k } = v\<close> throws a TypeError on undefined and null and reads the
  property of anything else.
\<close>

definition destructure :: "jsval \<Rightarrow> string \<Rightarrow> js_error + jsval" where
  "destructure v k =
     (if v = JUndefined then
        Inl (JsError (''Cannot destructure property '' @ [CHR 0x27] @ k @ [CHR 0x27]
                      @ '' of '' @ [CHR 0x27] @ ''req.body'' @ [CHR 0x27]
                      @ '' as it is undefined.''))
      else if v = JNull then
        Inl (JsError (''Cannot destructure property '' @ [CHR 0x27] @ k @ [CHR 0x27]
                      @ '' of '' @ [CHR 0x27] @ ''req.body'' @ [CHR 0x27]
                      @ '' as it is null.''))
      else Inr (get_prop v k))"

section \<open>String built-ins\<close>

definition join_comma :: "string list \<Rightarrow> string" where
  "join_comma ss = concat (case ss of [] \<Rightarrow> [] | s # rest \<Rightarrow> s # map (\<lambda>t. '','' @ t) rest)"

definition digit_char :: "nat \<Rightarrow> char" where
  "digit_char d = ''0123456789'' ! d"

function string_of_nat :: "nat \<Rightarrow> string" where
  "string_of_nat n =
     (if n < 10 then [digit_char n] else string_of_nat (n div 10) @ [digit_char (n mod 10)])"
  by pat_completeness auto
termination
  by (relation "measure id") auto

definition NumberToString :: "int \<Rightarrow> string" where
  "NumberToString i = (if i < 0 then ''-'' @ string_of_nat (nat (- i)) else string_of_nat (nat i))"

text \<open>
  String conversion, as a template literal \<^verbatim>\<open>`${v}`\<close> and \<^verbatim>\<open>encodeURIComponent(v)\<close>
  apply it: an array joins its elements with commas, undefined and null elements as the
  empty string.
\<close>

primrec ToString :: "jsval \<Rightarrow> string" where
  "ToString JUndefined = ''undefined''"
| "ToString JNull = ''null''"
| "ToString (JBool b) = (if b then ''true'' else ''false'')"
| "ToString (JNum n) = NumberToString n"
| "ToString (JStr s) = s"
| "ToString (JArr xs) =
     join_comma (map (\<lambda>(x, s). if x = JUndefined \<or> x = JNull then [] else s)
                     (map (\<lambda>x. (x, ToString x)) xs))"
| "ToString (JObj kvs) = ''[object Object]''"

subsection \<open>JSON.stringify\<close>

definition hex_lower :: "nat \<Rightarrow> char" where
  "hex_lower d = ''0123456789abcdef'' ! d"

text \<open>
  One code unit inside a JSON string: the quote and the backslash are escaped, a control
  character has its short escape or \<^verbatim>\<open>\u00XX\<close>, every other byte stands for itself.
\<close>

definition quote_char :: "char \<Rightarrow> string" where
  "quote_char c =
     (if c = CHR 0x22 then [CHR 0x5C, CHR 0x22]
      else if c = CHR 0x5C then [CHR 0x5C, CHR 0x5C]
      else if c = CHR 0x08 then [CHR 0x5C, CHR ''b'']
      else if c = CHR 0x09 then [CHR 0x5C, CHR ''t'']
      else if c = CHR 0x0A then [CHR 0x5C, CHR ''n'']
      else if c = CHR 0x0C then [CHR 0x5C, CHR ''f'']
      else if c = CHR 0x0D then [CHR 0x5C, CHR ''r'']
      else if (of_char c :: nat) < 32 then
        [CHR 0x5C, CHR ''u'', CHR ''0'', CHR ''0'',
         hex_lower ((of_char c :: nat) div 16), hex_lower ((of_char c :: nat) mod 16)]
      else [c])"

definition QuoteJSONString :: "string \<Rightarrow> string" where
  "QuoteJSONString s = [CHR 0x22] @ concat (map quote_char s) @ [CHR 0x22]"

text \<open>
  The text \<^verbatim>\<open>JSON.stringify(v)\<close> returns; \<open>None\<close> is its result undefined. A property
  whose value is undefined is left out of an object, an undefined element of an array is
  written null.
\<close>

primrec JSON_stringify :: "jsval \<Rightarrow> string option" where
  "JSON_stringify JUndefined = None"
| "JSON_stringify JNull = Some ''null''"
| "JSON_stringify (JBool b) = Some (if b then ''true'' else ''false'')"
| "JSON_stringify (JNum n) = Some (NumberToString n)"
| "JSON_stringify (JStr s) = Some (QuoteJSONString s)"
| "JSON_stringify (JArr xs) =
     Some (''['' @ join_comma (map (\<lambda>r. case r of None \<Rightarrow> ''null'' | Some t \<Rightarrow> t)
                                   (map JSON_stringify xs)) @ '']'')"
| "JSON_stringify (JObj kvs) =
     Some (''{'' @ join_comma
                    (List.map_filter
                       (\<lambda>(k, r). case r of None \<Rightarrow> None
                                  | Some t \<Rightarrow> Some (QuoteJSONString k @ '':'' @ t))
                       (map (map_prod id JSON_stringify) kvs)) @ ''}'')"

subsection \<open>encodeURIComponent, replace, split\<close>

definition hex_upper :: "nat \<Rightarrow> char" where
  "hex_upper d = ''0123456789ABCDEF'' ! d"

text \<open>The characters \<^verbatim>\<open>encodeURIComponent\<close> leaves as they are.\<close>

definition uri_unreserved :: "char \<Rightarrow> bool" where
  "uri_unreserved c =
     (c \<in> set (''ABCDEFGHIJKLMNOPQRSTUVWXYZ'' @ ''abcdefghijklmnopqrstuvwxyz''
               @ ''0123456789'' @ ''-_.!~*()'' @ [CHR 0x27]))"

definition percent_encode :: "char \<Rightarrow> string" where
  "percent_encode c =
     [CHR ''%'', hex_upper ((of_char c :: nat) div 16), hex_upper ((of_char c :: nat) mod 16)]"

text \<open>Every byte of the UTF-8 encoding outside the unreserved set becomes \<^verbatim>\<open>%XX\<close>.\<close>

definition encodeURIComponent :: "jsval \<Rightarrow> string" where
  "encodeURIComponent v =
     concat (map (\<lambda>c. if uri_unreserved c then [c] else percent_encode c) (ToString v))"

text \<open>
  \<^verbatim>\<open>s.replace(pat, rep)\<close> with a string pattern: the first occurrence of the pattern
  is replaced, a string without one is returned as it is.
\<close>

fun replace_first :: "string \<Rightarrow> string \<Rightarrow> string \<Rightarrow> string" where
  "replace_first pat rep [] = (if pat = [] then rep else [])"
| "replace_first pat rep (c # cs) =
     (if take (length pat) (c # cs) = pat then rep @ drop (length pat) (c # cs)
      else c # replace_first pat rep cs)"

text \<open>\<^verbatim>\<open>s.split(sep)\<close> with a one-character separator.\<close>

fun split_on :: "char \<Rightarrow> string \<Rightarrow> string list" where
  "split_on sep [] = [[]]"
| "split_on sep (c # cs) =
     (if c = sep then [] # split_on sep cs
      else (case split_on sep cs of
              [] \<Rightarrow> [[c]]
            | w # ws \<Rightarrow> (c # w) # ws))"


section \<open>Promises and fetch\<close>

text \<open>A settled promise: resolved with a value, or rejected with what was thrown.\<close>

datatype ('a, 'r) promise = Resolved 'a | Rejected 'r

record form_part =
  part_field :: string
  part_content :: string
  part_filename :: "string option"
  part_contentType :: "string option"

datatype fetch_body = NoBody | TextBody string | FormBody "form_part list"

record fetch_request =
  fetch_url :: string
  fetch_method :: string
  fetch_headers :: "(string \<times> string) list"
  fetch_body :: fetch_body

text \<open>
  What the remote service answers: a status code, and what \<^verbatim>\<open>response.json()\<close>
  gives, the decoded body or the error it throws on a body that is not JSON.
\<close>

record remote_response =
  response_status :: nat
  response_json :: "js_error + jsval"

text \<open>
  The network: \<^verbatim>\<open>fetch\<close> either rejects (no connection, time-out, a request it
  refuses) or resolves with a response. The functions below take it as a parameter.
\<close>

datatype fetch_outcome = FetchRejects js_error | FetchResponds remote_response

type_synonym network = "fetch_request \<Rightarrow> fetch_outcome"

definition json_headers :: "(string \<times> string) list" where
  "json_headers = [(''Content-Type'', ''application/json'')]"

section \<open>The client library\<close>

text \<open>
  The module's top-level binding and the console it writes to. The library reads the
  remote base address from \<open>BASE_URL\<close> at every call.
\<close>

record module_state =
  BASE_URL :: string
  console :: "string list"

definition tomatoApi_module :: module_state where
  "tomatoApi_module = \<lparr>BASE_URL = ''https://n8n.seedfarm.co.kr/webhook'', console = []\<rparr>"

text \<open>What a call gives back: the promise's outcome and the requests it handed to fetch.\<close>

record 'a call_result =
  returned :: "('a, js_error) promise"
  requested :: "fetch_request list"

text \<open>
  The two statements every endpoint function ends with:
  \<^verbatim>\<open>const response = await fetch(...); return response.json();\<close>
\<close>

definition fetch_then_json :: "network \<Rightarrow> fetch_request \<Rightarrow> jsval call_result" where
  "fetch_then_json net rq =
     \<lparr>returned =
        (case net rq of
           FetchRejects e \<Rightarrow> Rejected e
         | FetchResponds response \<Rightarrow>
             (case response_json response of Inl e \<Rightarrow> Rejected e | Inr data \<Rightarrow> Resolved data)),
      requested = [rq]\<rparr>"

definition get_request :: "string \<Rightarrow> fetch_request" where
  "get_request u = \<lparr>fetch_url = u, fetch_method = ''GET'', fetch_headers = [], fetch_body = NoBody\<rparr>"

definition post_request :: "string \<Rightarrow> fetch_request" where
  "post_request u = \<lparr>fetch_url = u, fetch_method = ''POST'', fetch_headers = [], fetch_body = NoBody\<rparr>"

text \<open>A body that is undefined is no body.\<close>

definition text_body :: "string option \<Rightarrow> fetch_body" where
  "text_body r = (case r of None \<Rightarrow> NoBody | Some t \<Rightarrow> TextBody t)"

definition post_json :: "string \<Rightarrow> jsval \<Rightarrow> fetch_request" where
  "post_json u v =
     \<lparr>fetch_url = u, fetch_method = ''POST'', fetch_headers = json_headers,
      fetch_body = text_body (JSON_stringify v)\<rparr>"

text \<open>
  A Blob or a File (which has a name). \<^verbatim>\<open>formData.append(field, b)\<close> sends a File
  under its name and a Blob under the name blob.
\<close>

record blob =
  blob_bytes :: string
  blob_type :: string
  blob_name :: "string option"

definition blob_part :: "string \<Rightarrow> blob \<Rightarrow> form_part" where
  "blob_part field b =
     \<lparr>part_field = field, part_content = blob_bytes b,
      part_filename = Some (case blob_name b of None \<Rightarrow> ''blob'' | Some n \<Rightarrow> n),
      part_contentType = Some (blob_type b)\<rparr>"

subsection \<open>Data, camera\<close>

definition getRealtimeData :: "module_state \<Rightarrow> network \<Rightarrow> jsval call_result" where
  "getRealtimeData m net = fetch_then_json net (get_request (BASE_URL m @ ''/data-realtime''))"

definition getHistoryData :: "module_state \<Rightarrow> network \<Rightarrow> jsval \<Rightarrow> jsval call_result" where
  "getHistoryData m net hours0 =
     (let hours = default_param (JNum 1) hours0
      in fetch_then_json net (get_request (BASE_URL m @ ''/data-history?hours='' @ ToString hours)))"

definition getDailySummary :: "module_state \<Rightarrow> network \<Rightarrow> jsval call_result" where
  "getDailySummary m net = fetch_then_json net (get_request (BASE_URL m @ ''/data-summary''))"

definition captureNow :: "module_state \<Rightarrow> network \<Rightarrow> jsval call_result" where
  "captureNow m net = fetch_then_json net (post_request (BASE_URL m @ ''/camera-capture''))"

definition captureTest :: "module_state \<Rightarrow> network \<Rightarrow> jsval call_result" where
  "captureTest m net = fetch_then_json net (post_request (BASE_URL m @ ''/capture-test''))"

definition startMonitoring :: "module_state \<Rightarrow> network \<Rightarrow> jsval call_result" where
  "startMonitoring m net = fetch_then_json net (post_request (BASE_URL m @ ''/camera-start''))"

definition stopMonitoring :: "module_state \<Rightarrow> network \<Rightarrow> jsval call_result" where
  "stopMonitoring m net = fetch_then_json net (post_request (BASE_URL m @ ''/camera-stop''))"

definition getCameraStatus :: "module_state \<Rightarrow> network \<Rightarrow> jsval call_result" where
  "getCameraStatus m net = fetch_then_json net (get_request (BASE_URL m @ ''/camera-status''))"

definition setCaptureInterval :: "module_state \<Rightarrow> network \<Rightarrow> jsval \<Rightarrow> jsval call_result" where
  "setCaptureInterval m net interval =
     fetch_then_json net
       (post_json (BASE_URL m @ ''/camera-interval'') (JObj [(''interval'', interval)]))"

definition setWhiteBalance :: "module_state \<Rightarrow> network \<Rightarrow> jsval \<Rightarrow> jsval call_result" where
  "setWhiteBalance m net mode =
     fetch_then_json net
       (post_json (BASE_URL m @ ''/camera-white-balance'') (JObj [(''mode'', mode)]))"

subsection \<open>AI\<close>

text \<open>The object \<^verbatim>\<open>sendChatMessage\<close> serializes: the session id is added when it is truthy.\<close>

definition sendChatMessage_body :: "jsval \<Rightarrow> jsval \<Rightarrow> jsval" where
  "sendChatMessage_body message sessionId0 =
     (let sessionId = default_param JNull sessionId0;
          body = JObj [(''message'', message)]
      in if truthy sessionId then set_prop body ''session_id'' sessionId else body)"

definition sendChatMessage :: "module_state \<Rightarrow> network \<Rightarrow> jsval \<Rightarrow> jsval \<Rightarrow> jsval call_result" where
  "sendChatMessage m net message sessionId0 =
     fetch_then_json net
       (post_json (BASE_URL m @ ''/chat-message'') (sendChatMessage_body message sessionId0))"

definition analyzeImage :: "module_state \<Rightarrow> network \<Rightarrow> blob \<Rightarrow> jsval call_result" where
  "analyzeImage m net imageFile =
     (let formData = [blob_part ''image'' imageFile]
      in fetch_then_json net
           \<lparr>fetch_url = BASE_URL m @ ''/capture-analyze'', fetch_method = ''POST'',
            fetch_headers = [], fetch_body = FormBody formData\<rparr>)"

definition diagnoseDisease :: "module_state \<Rightarrow> network \<Rightarrow> jsval \<Rightarrow> jsval \<Rightarrow> jsval call_result" where
  "diagnoseDisease m net base64Image mimeType0 =
     (let mimeType = default_param (JStr ''image/jpeg'') mimeType0
      in fetch_then_json net
           (post_json (BASE_URL m @ ''/disease-diagnosis'')
              (JObj [(''image'', base64Image), (''mimeType'', mimeType)])))"

subsection \<open>Chat history\<close>

definition getChatHistoryList :: "module_state \<Rightarrow> network \<Rightarrow> jsval \<Rightarrow> jsval \<Rightarrow> jsval call_result" where
  "getChatHistoryList m net page0 limit0 =
     (let page = default_param (JNum 1) page0;
          limit = default_param (JNum 10) limit0
      in fetch_then_json net
           (get_request (BASE_URL m @ ''/chat-message/history?page='' @ ToString page
                         @ ''&limit='' @ ToString limit)))"

definition getChatHistoryDetail :: "module_state \<Rightarrow> network \<Rightarrow> jsval \<Rightarrow> jsval call_result" where
  "getChatHistoryDetail m net threadId =
     fetch_then_json net
       (get_request (BASE_URL m @ ''/chat-message/history/detail?threadId=''
                     @ encodeURIComponent threadId))"

definition deleteChatHistory :: "module_state \<Rightarrow> network \<Rightarrow> jsval \<Rightarrow> jsval call_result" where
  "deleteChatHistory m net threadId =
     fetch_then_json net
       \<lparr>fetch_url = BASE_URL m @ ''/chat-message/history/delete?threadId=''
                    @ encodeURIComponent threadId,
        fetch_method = ''DELETE'', fetch_headers = [], fetch_body = NoBody\<rparr>"

subsection \<open>Market, prediction, diary, home\<close>

definition getMarketPrice :: "module_state \<Rightarrow> network \<Rightarrow> jsval call_result" where
  "getMarketPrice m net = fetch_then_json net (get_request (BASE_URL m @ ''/market-price''))"

definition getPriceCompare :: "module_state \<Rightarrow> network \<Rightarrow> jsval call_result" where
  "getPriceCompare m net = fetch_then_json net (get_request (BASE_URL m @ ''/price-compare''))"

definition getPriceHistory :: "module_state \<Rightarrow> network \<Rightarrow> jsval \<Rightarrow> jsval \<Rightarrow> jsval call_result" where
  "getPriceHistory m net start end0 =
     fetch_then_json net
       (get_request (BASE_URL m @ ''/price-history?start='' @ ToString start
                     @ ''&end='' @ ToString end0))"

definition predictYield :: "module_state \<Rightarrow> network \<Rightarrow> jsval \<Rightarrow> jsval call_result" where
  "predictYield m net params =
     fetch_then_json net (post_json (BASE_URL m @ ''/yield-prediction'') params)"

definition getDiaryList :: "module_state \<Rightarrow> network \<Rightarrow> jsval \<Rightarrow> jsval call_result" where
  "getDiaryList m net days0 =
     (let days = default_param (JNum 7) days0
      in fetch_then_json net (get_request (BASE_URL m @ ''/app/diary?days='' @ ToString days)))"

definition saveDiary :: "module_state \<Rightarrow> network \<Rightarrow> jsval \<Rightarrow> jsval call_result" where
  "saveDiary m net entry = fetch_then_json net (post_json (BASE_URL m @ ''/app/diary'') entry)"

definition getHomeData :: "module_state \<Rightarrow> network \<Rightarrow> jsval call_result" where
  "getHomeData m net = fetch_then_json net (get_request (BASE_URL m @ ''/app/home''))"

definition appChat :: "module_state \<Rightarrow> network \<Rightarrow> jsval \<Rightarrow> jsval \<Rightarrow> jsval call_result" where
  "appChat m net message apiKey0 =
     (let apiKey = default_param (JStr ''tomato-farm-2024'') apiKey0
      in fetch_then_json net
           (post_json (BASE_URL m @ ''/app/chat'')
              (JObj [(''message'', message), (''api_key'', apiKey)])))"

definition appAnalyze :: "module_state \<Rightarrow> network \<Rightarrow> blob \<Rightarrow> jsval call_result" where
  "appAnalyze m net file0 =
     (let formData = [blob_part ''file'' file0]
      in fetch_then_json net
           \<lparr>fetch_url = BASE_URL m @ ''/app/analyze'', fetch_method = ''POST'',
            fetch_headers = [], fetch_body = FormBody formData\<rparr>)"

subsection \<open>Utilities\<close>





text \<open>The UTF-8 bytes of the warning (the text is Korean: setBaseUrl is not implemented, edit BASE_URL directly).\<close>

definition setBaseUrl_warning :: string where
  "setBaseUrl_warning = map char_of
     ([115, 101, 116, 66, 97, 115, 101, 85, 114, 108, 236, 157, 128, 32, 237, 152, 132,
       236, 158, 172, 32, 234, 181, 172, 237, 152, 132, 235, 144, 152, 236, 167, 128, 32,
       236, 149, 138, 236, 149, 152, 236, 138, 181, 235, 139, 136, 235, 139, 164, 46, 32,
       66, 65, 83, 69, 95, 85, 82, 76, 236, 157, 132, 32, 236, 167, 129, 236, 160, 145, 32,
       236, 136, 152, 236, 160, 149, 237, 149, 152, 236, 132, 184, 236, 154, 148, 46] :: nat list)"

definition setBaseUrl :: "module_state \<Rightarrow> jsval \<Rightarrow> module_state" where
  "setBaseUrl m url = m\<lparr>console := console m @ [setBaseUrl_warning]\<rparr>"

subsection \<open>The default export\<close>

datatype endpoint_call =
    GetRealtimeData
  | GetHistoryData jsval
  | GetDailySummary
  | CaptureNow
  | CaptureTest
  | StartMonitoring
  | StopMonitoring
  | GetCameraStatus
  | SetCaptureInterval jsval
  | SetWhiteBalance jsval
  | SendChatMessage jsval jsval
  | AnalyzeImage blob
  | DiagnoseDisease jsval jsval
  | GetChatHistoryList jsval jsval
  | GetChatHistoryDetail jsval
  | DeleteChatHistory jsval
  | GetMarketPrice
  | GetPriceCompare
  | GetPriceHistory jsval jsval
  | PredictYield jsval
  | GetDiaryList jsval
  | SaveDiary jsval
  | GetHomeData
  | AppChat jsval jsval
  | AppAnalyze blob

text \<open>Every endpoint function of the exported object, applied to its arguments.\<close>

fun tomatoApi :: "module_state \<Rightarrow> network \<Rightarrow> endpoint_call \<Rightarrow> jsval call_result" where
  "tomatoApi m net GetRealtimeData = getRealtimeData m net"
| "tomatoApi m net (GetHistoryData hours) = getHistoryData m net hours"
| "tomatoApi m net GetDailySummary = getDailySummary m net"
| "tomatoApi m net CaptureNow = captureNow m net"
| "tomatoApi m net CaptureTest = captureTest m net"
| "tomatoApi m net StartMonitoring = startMonitoring m net"
| "tomatoApi m net StopMonitoring = stopMonitoring m net"
| "tomatoApi m net GetCameraStatus = getCameraStatus m net"
| "tomatoApi m net (SetCaptureInterval interval) = setCaptureInterval m net interval"
| "tomatoApi m net (SetWhiteBalance mode) = setWhiteBalance m net mode"
| "tomatoApi m net (SendChatMessage message sessionId) = sendChatMessage m net message sessionId"
| "tomatoApi m net (AnalyzeImage imageFile) = analyzeImage m net imageFile"
| "tomatoApi m net (DiagnoseDisease base64Image mimeType) =
     diagnoseDisease m net base64Image mimeType"
| "tomatoApi m net (GetChatHistoryList page limit) = getChatHistoryList m net page limit"
| "tomatoApi m net (GetChatHistoryDetail threadId) = getChatHistoryDetail m net threadId"
| "tomatoApi m net (DeleteChatHistory threadId) = deleteChatHistory m net threadId"
| "tomatoApi m net GetMarketPrice = getMarketPrice m net"
| "tomatoApi m net GetPriceCompare = getPriceCompare m net"
| "tomatoApi m net (GetPriceHistory start end0) = getPriceHistory m net start end0"
| "tomatoApi m net (PredictYield params) = predictYield m net params"
| "tomatoApi m net (GetDiaryList days) = getDiaryList m net days"
| "tomatoApi m net (SaveDiary entry) = saveDiary m net entry"
| "tomatoApi m net GetHomeData = getHomeData m net"
| "tomatoApi m net (AppChat message apiKey) = appChat m net message apiKey"
| "tomatoApi m net (AppAnalyze file0) = appAnalyze m net file0"

section \<open>The proxy server\<close>

text \<open>
  The remote base address: the environment's \<^verbatim>\<open>N8N_URL\<close> when it is set and not
  empty, the fixed address otherwise.
\<close>

definition N8N_BASE_URL :: "(string \<rightharpoonup> string) \<Rightarrow> string" where
  "N8N_BASE_URL env =
     (case env ''N8N_URL'' of
        Some u \<Rightarrow> if u \<noteq> [] then u else ''https://n8n.seedfarm.co.kr/webhook''
      | None \<Rightarrow> ''https://n8n.seedfarm.co.kr/webhook'')"

text \<open>The file multer keeps in memory, and the request as the handlers read it.\<close>

record upload =
  buffer :: string
  originalname :: string
  mimetype :: string

record express_request =
  req_method :: string
  req_path :: string
  req_body :: jsval
  req_file :: "upload option"

record express_response =
  res_status :: nat
  res_json :: jsval

text \<open>
  What handling one request does: the response sent, the requests handed to fetch, and
  the lines written with \<^verbatim>\<open>console.error\<close>.
\<close>

record handled =
  responded :: express_response
  outbound :: "fetch_request list"
  logged :: "(string \<times> js_error) list"

text \<open>The UTF-8 bytes of the messages, which are Korean. An image file is needed, attach it to the image field of the form data:\<close>

definition file_required_message :: string where
  "file_required_message = map char_of
     ([236, 157, 180, 235, 175, 184, 236, 167, 128, 32, 237, 140, 140, 236, 157, 188, 236,
       157, 180, 32, 237, 149, 132, 236, 154, 148, 237, 149, 169, 235, 139, 136, 235, 139,
       164, 46, 32, 70, 111, 114, 109, 68, 97, 116, 97, 236, 157, 152, 32, 34, 105, 109,
       97, 103, 101, 34, 32, 237, 149, 132, 235, 147, 156, 236, 151, 144, 32, 237, 140,
       140, 236, 157, 188, 236, 157, 132, 32, 236, 178, 168, 235, 182, 128, 237, 149, 180,
       236, 163, 188, 236, 132, 184, 236, 154, 148, 46] :: nat list)"

text \<open>A base64-encoded image is needed, check the image field of the JSON body:\<close>

definition image_required_message :: string where
  "image_required_message = map char_of
     ([66, 97, 115, 101, 54, 52, 32, 236, 157, 184, 236, 189, 148, 235, 148, 169, 235, 144,
       156, 32, 236, 157, 180, 235, 175, 184, 236, 167, 128, 234, 176, 128, 32, 237, 149,
       132, 236, 154, 148, 237, 149, 169, 235, 139, 136, 235, 139, 164, 46, 32, 74, 83, 79,
       78, 32, 98, 111, 100, 121, 236, 157, 152, 32, 34, 105, 109, 97, 103, 101, 34, 32,
       237, 149, 132, 235, 147, 156, 235, 165, 188, 32, 237, 153, 149, 236, 157, 184, 237,
       149, 180, 236, 163, 188, 236, 132, 184, 236, 154, 148, 46] :: nat list)"

text \<open>A message is needed:\<close>

definition message_required_message :: string where
  "message_required_message = map char_of
     ([235, 169, 148, 236, 139, 156, 236, 167, 128, 234, 176, 128, 32, 237, 149, 132, 236,
       154, 148, 237, 149, 169, 235, 139, 136, 235, 139, 164, 46] :: nat list)"

text \<open>The hint: the n8n server cannot be reached, check its state:\<close>

definition unreachable_hint :: string where
  "unreachable_hint = map char_of
     ([110, 56, 110, 32, 236, 132, 156, 235, 178, 132, 236, 151, 144, 32, 236, 151, 176,
       234, 178, 176, 237, 149, 160, 32, 236, 136, 152, 32, 236, 151, 134, 236, 138, 181,
       235, 139, 136, 235, 139, 164, 46, 32, 236, 132, 156, 235, 178, 132, 32, 236, 131,
       129, 237, 131, 156, 235, 165, 188, 32, 237, 153, 149, 236, 157, 184, 237, 149, 180,
       236, 163, 188, 236, 132, 184, 236, 154, 148, 46] :: nat list)"

text \<open>The prefix of the logged lines (proxy error):\<close>

definition log_prefix :: string where
  "log_prefix = map char_of
     ([237, 148, 132, 235, 161, 157, 236, 139, 156, 32, 236, 152, 164, 235, 165, 152] :: nat list)"

text \<open>
  The three statements each handler ends its try block with:
  \<^verbatim>\<open>const response = await fetch(...); const data = await response.json();
  res.status(response.status).json(data);\<close>
  The left result is the error thrown on the way.
\<close>

definition relay :: "network \<Rightarrow> fetch_request \<Rightarrow> js_error + express_response" where
  "relay net rq =
     (case net rq of
        FetchRejects e \<Rightarrow> Inl e
      | FetchResponds response \<Rightarrow>
          (case response_json response of
             Inl e \<Rightarrow> Inl e
           | Inr data \<Rightarrow> Inr \<lparr>res_status = response_status response, res_json = data\<rparr>))"

text \<open>
  The headers \<^verbatim>\<open>formData.getHeaders()\<close> gives; the boundary is the one the form-data
  library drew for this form.
\<close>

definition getHeaders :: "string \<Rightarrow> (string \<times> string) list" where
  "getHeaders boundary = [(''content-type'', ''multipart/form-data; boundary='' @ boundary)]"

definition proxyFormData ::
  "string \<Rightarrow> network \<Rightarrow> string \<Rightarrow> express_request \<Rightarrow> string \<Rightarrow> handled" where
  "proxyFormData base net boundary req targetPath =
     (case req_file req of
        None \<Rightarrow>
          \<lparr>responded =
             \<lparr>res_status = 400,
              res_json = JObj [(''success'', JBool False),
                               (''error'', JStr file_required_message)]\<rparr>,
           outbound = [], logged = []\<rparr>
      | Some f \<Rightarrow>
          (let formData =
                 [\<lparr>part_field = ''image'', part_content = buffer f,
                   part_filename = Some (originalname f),
                   part_contentType = Some (mimetype f)\<rparr>];
               rq = \<lparr>fetch_url = base @ targetPath, fetch_method = ''POST'',
                     fetch_headers = getHeaders boundary, fetch_body = FormBody formData\<rparr>
           in case relay net rq of
                Inr sent \<Rightarrow> \<lparr>responded = sent, outbound = [rq], logged = []\<rparr>
              | Inl error \<Rightarrow>
                  \<lparr>responded =
                     \<lparr>res_status = 500,
                      res_json = JObj [(''success'', JBool False),
                                       (''error'', JStr (error_message error)),
                                       (''hint'', JStr unreachable_hint)]\<rparr>,
                   outbound = [rq],
                   logged = [(log_prefix @ '' ('' @ targetPath @ ''):'', error)]\<rparr>))"

text \<open>POST /proxy/capture-analyze, after \<^verbatim>\<open>upload.single('image')\<close> has set the file.\<close>

definition proxy_capture_analyze ::
  "string \<Rightarrow> network \<Rightarrow> string \<Rightarrow> express_request \<Rightarrow> handled" where
  "proxy_capture_analyze base net boundary req =
     proxyFormData base net boundary req ''/capture-analyze''"

text \<open>POST /proxy/disease-diagnosis.\<close>

definition proxy_disease_diagnosis :: "string \<Rightarrow> network \<Rightarrow> express_request \<Rightarrow> handled" where
  "proxy_disease_diagnosis base net req =
     (case destructure (req_body req) ''image'' of
        Inl error \<Rightarrow>
          \<lparr>responded =
             \<lparr>res_status = 500,
              res_json = JObj [(''success'', JBool False),
                               (''error'', JStr (error_message error)),
                               (''hint'', JStr unreachable_hint)]\<rparr>,
           outbound = [],
           logged = [(log_prefix @ '' (disease-diagnosis):'', error)]\<rparr>
      | Inr img \<Rightarrow>
          (let mimeType = get_prop (req_body req) ''mimeType''
           in if \<not> truthy img then
                \<lparr>responded =
                   \<lparr>res_status = 400,
                    res_json = JObj [(''success'', JBool False),
                                     (''error'', JStr image_required_message)]\<rparr>,
                 outbound = [], logged = []\<rparr>
              else
                (let rq = post_json (base @ ''/disease-diagnosis'')
                            (JObj [(''image'', img),
                                   (''mimeType'', js_or mimeType (JStr ''image/jpeg''))])
                 in case relay net rq of
                      Inr sent \<Rightarrow> \<lparr>responded = sent, outbound = [rq], logged = []\<rparr>
                    | Inl error \<Rightarrow>
                        \<lparr>responded =
                           \<lparr>res_status = 500,
                            res_json = JObj [(''success'', JBool False),
                                             (''error'', JStr (error_message error)),
                                             (''hint'', JStr unreachable_hint)]\<rparr>,
                         outbound = [rq],
                         logged = [(log_prefix @ '' (disease-diagnosis):'', error)]\<rparr>)))"

text \<open>POST /proxy/chat-message.\<close>

definition proxy_chat_message :: "string \<Rightarrow> network \<Rightarrow> express_request \<Rightarrow> handled" where
  "proxy_chat_message base net req =
     (case destructure (req_body req) ''message'' of
        Inl error \<Rightarrow>
          \<lparr>responded =
             \<lparr>res_status = 500,
              res_json = JObj [(''success'', JBool False),
                               (''error'', JStr (error_message error))]\<rparr>,
           outbound = [],
           logged = [(log_prefix @ '' (chat-message):'', error)]\<rparr>
      | Inr message \<Rightarrow>
          (if \<not> truthy message then
             \<lparr>responded =
                \<lparr>res_status = 400,
                 res_json = JObj [(''success'', JBool False),
                                  (''error'', JStr message_required_message)]\<rparr>,
              outbound = [], logged = []\<rparr>
           else
             (let rq = post_json (base @ ''/chat-message'') (JObj [(''message'', message)])
              in case relay net rq of
                   Inr sent \<Rightarrow> \<lparr>responded = sent, outbound = [rq], logged = []\<rparr>
                 | Inl error \<Rightarrow>
                     \<lparr>responded =
                        \<lparr>res_status = 500,
                         res_json = JObj [(''success'', JBool False),
                                          (''error'', JStr (error_message error))]\<rparr>,
                      outbound = [rq],
                      logged = [(log_prefix @ '' (chat-message):'', error)]\<rparr>)))"

text \<open>ALL /proxy/*, the generic route.\<close>

definition proxy_all :: "string \<Rightarrow> network \<Rightarrow> express_request \<Rightarrow> handled" where
  "proxy_all base net req =
     (let targetPath = replace_first ''/proxy'' [] (req_path req);
          url = base @ targetPath;
          rq = \<lparr>fetch_url = url, fetch_method = req_method req, fetch_headers = json_headers,
                fetch_body =
                  (if req_method req \<noteq> ''GET'' \<and> truthy (req_body req)
                   then text_body (JSON_stringify (req_body req)) else NoBody)\<rparr>
      in case relay net rq of
           Inr sent \<Rightarrow> \<lparr>responded = sent, outbound = [rq], logged = []\<rparr>
         | Inl error \<Rightarrow>
             \<lparr>responded =
                \<lparr>res_status = 500,
                 res_json = JObj [(''success'', JBool False),
                                  (''error'', JStr (error_message error))]\<rparr>,
              outbound = [rq],
              logged = [(log_prefix @ '':'', error)]\<rparr>)"

subsection \<open>What reaches the handlers\<close>




section \<open>Reading a request back\<close>

text \<open>
  How the receiver of a URL reads its query: the text after the first question mark,
  cut at every ampersand, each piece cut at its first equals sign.
\<close>

definition url_query :: "string \<Rightarrow> string" where
  "url_query u = drop 1 (dropWhile (\<lambda>c. c \<noteq> CHR ''?'') u)"

definition split_pair :: "string \<Rightarrow> string \<times> string" where
  "split_pair p =
     (takeWhile (\<lambda>c. c \<noteq> CHR ''='') p, drop 1 (dropWhile (\<lambda>c. c \<noteq> CHR ''='') p))"

definition query_params :: "string \<Rightarrow> (string \<times> string) list" where
  "query_params u = map split_pair (split_on (CHR ''&'') (url_query u))"

text \<open>
  Three remote services to run the functions against: one that cannot be reached, one
  that answers a status and a JSON body, one whose answer is not JSON.
\<close>

definition remote_down :: network where
  "remote_down rq = FetchRejects (JsError ''fetch failed'')"

definition remote_answers :: "nat \<Rightarrow> jsval \<Rightarrow> network" where
  "remote_answers s v rq = FetchResponds \<lparr>response_status = s, response_json = Inr v\<rparr>"

definition remote_not_json :: network where
  "remote_not_json rq =
     FetchResponds \<lparr>response_status = 502,
                    response_json = Inl (JsError ''Unexpected token < in JSON at position 0'')\<rparr>"

text \<open>The same outcome with another status code on the response.\<close>

fun with_status :: "nat \<Rightarrow> fetch_outcome \<Rightarrow> fetch_outcome" where
  "with_status s (FetchRejects e) = FetchRejects e"
| "with_status s (FetchResponds response) = FetchResponds (response\<lparr>response_status := s\<rparr>)"

text \<open>Requests as the handlers receive them.\<close>

definition put_foo_bar :: express_request where
  "put_foo_bar = \<lparr>req_method = ''PUT'', req_path = ''/proxy/foo/bar'',
                  req_body = JObj [(''a'', JNum 1)], req_file = None\<rparr>"

definition chat_request :: express_request where
  "chat_request = \<lparr>req_method = ''POST'', req_path = ''/proxy/chat-message'',
                   req_body = JObj [(''message'', JStr ''hi''), (''session_id'', JStr ''s1'')],
                   req_file = None\<rparr>"

definition empty_request :: express_request where
  "empty_request = \<lparr>req_method = ''POST'', req_path = ''/proxy/chat-message'',
                    req_body = JObj [], req_file = None\<rparr>"



section \<open>Facts about the built-ins\<close>

lemma split_on_nonempty: "split_on sep s \<noteq> []"
  by (induction s) (auto split: list.splits)

lemma split_on_no_sep: "sep \<notin> set s \<Longrightarrow> split_on sep s = [s]"
  by (induction s) auto



lemma truthy_stringify: "truthy v \<Longrightarrow> \<exists>t. JSON_stringify v = Some t"
  by (cases v) auto

lemma hex_upper_mem: "d < 16 \<Longrightarrow> hex_upper d \<in> set ''0123456789ABCDEF''"
  unfolding hex_upper_def by (rule nth_mem) simp

lemma percent_encode_chars:
  assumes "x \<in> set (percent_encode c)"
  shows "x = CHR ''%'' \<or> x \<in> set ''0123456789ABCDEF''"
proof -
  have "(of_char c :: nat) < 256" by simp
  then have 1: "(of_char c :: nat) div 16 < 16" by arith
  have 2: "(of_char c :: nat) mod 16 < 16" by simp
  from assms have "x = CHR ''%'' \<or> x = hex_upper ((of_char c :: nat) div 16)
      \<or> x = hex_upper ((of_char c :: nat) mod 16)"
    by (simp add: percent_encode_def)
  with hex_upper_mem[OF 1] hex_upper_mem[OF 2] show ?thesis by blast
qed

lemma encodeURIComponent_chars:
  assumes "x \<in> set (encodeURIComponent v)"
  shows "uri_unreserved x \<or> x = CHR ''%'' \<or> x \<in> set ''0123456789ABCDEF''"
proof -
  from assms have
    "x \<in> (\<Union>c\<in>set (ToString v). set (if uri_unreserved c then [c] else percent_encode c))"
    unfolding encodeURIComponent_def by (simp only: set_concat set_map image_image)
  then obtain c where
    x: "x \<in> set (if uri_unreserved c then [c] else percent_encode c)"
    by (rule UN_E)
  show ?thesis
  proof (cases "uri_unreserved c")
    case True
    with x show ?thesis by simp
  next
    case False
    with x have "x \<in> set (percent_encode c)" by simp
    then show ?thesis using percent_encode_chars by blast
  qed
qed

lemma delims_reserved:
  "\<not> uri_unreserved (CHR ''&'')" "\<not> uri_unreserved (CHR ''='')"
  "\<not> uri_unreserved (CHR ''?'')" "\<not> uri_unreserved (CHR ''#'')"
  by (simp_all add: uri_unreserved_def)

lemma encodeURIComponent_no_amp: "CHR ''&'' \<notin> set (encodeURIComponent v)"
proof
  assume "CHR ''&'' \<in> set (encodeURIComponent v)"
  from encodeURIComponent_chars[OF this] show False
    by (simp add: delims_reserved)
qed

lemma encodeURIComponent_no_eq: "CHR ''='' \<notin> set (encodeURIComponent v)"
proof
  assume "CHR ''='' \<in> set (encodeURIComponent v)"
  from encodeURIComponent_chars[OF this] show False
    by (simp add: delims_reserved)
qed

lemma encodeURIComponent_no_qm: "CHR ''?'' \<notin> set (encodeURIComponent v)"
proof
  assume "CHR ''?'' \<in> set (encodeURIComponent v)"
  from encodeURIComponent_chars[OF this] show False
    by (simp add: delims_reserved)
qed

lemma encodeURIComponent_no_hash: "CHR ''#'' \<notin> set (encodeURIComponent v)"
proof
  assume "CHR ''#'' \<in> set (encodeURIComponent v)"
  from encodeURIComponent_chars[OF this] show False
    by (simp add: delims_reserved)
qed


lemma dropWhile_until:
  "c \<notin> set pre \<Longrightarrow> dropWhile (\<lambda>x. x \<noteq> c) (pre @ c # rest) = c # rest"
  by (induction pre) auto

lemma query_threadId:
  assumes "CHR ''?'' \<notin> set pre"
  shows "query_params (pre @ ''?threadId='' @ encodeURIComponent v)
           = [(''threadId'', encodeURIComponent v)]"
proof -
  have q: "url_query (pre @ ''?threadId='' @ encodeURIComponent v)
             = ''threadId='' @ encodeURIComponent v"
    using dropWhile_until[OF assms, of "''threadId='' @ encodeURIComponent v"]
    by (simp add: url_query_def)
  have a: "CHR ''&'' \<notin> set (''threadId='' @ encodeURIComponent v)"
    using encodeURIComponent_no_amp[of v] by simp
  show ?thesis
    unfolding query_params_def q split_on_no_sep[OF a]
    by (simp add: split_pair_def)
qed

text \<open>Every endpoint function hands one request to fetch and decodes the answer.\<close>

lemma tomatoApi_one_fetch:
  "\<exists>rq. \<forall>net. tomatoApi m net c = fetch_then_json net rq"
  by (cases c)
     (auto simp add: getRealtimeData_def getHistoryData_def getDailySummary_def
        captureNow_def captureTest_def startMonitoring_def stopMonitoring_def getCameraStatus_def
        setCaptureInterval_def setWhiteBalance_def sendChatMessage_def analyzeImage_def
        diagnoseDisease_def getChatHistoryList_def getChatHistoryDetail_def deleteChatHistory_def
        getMarketPrice_def getPriceCompare_def getPriceHistory_def predictYield_def
        getDiaryList_def saveDiary_def getHomeData_def appChat_def appAnalyze_def Let_def)

section \<open>The client library: what is sent\<close>

text \<open>
  Claim C4, as the code has it. For every message string and every session id string
  that is not empty, \<^verbatim>\<open>sendChatMessage\<close> hands fetch one POST to the chat-message
  address whose body is the JSON text of the object with the two keys message and
  session_id, in this order. When the session id is left out (undefined, so that the
  default null applies) or is null, the body is the JSON text of the object with the one
  key message: no session_id key is written.
\<close>

theorem sendChatMessage_body_exact:
  "(s \<noteq> [] \<longrightarrow>
      requested (sendChatMessage m net (JStr msg) (JStr s)) =
        [\<lparr>fetch_url = BASE_URL m @ ''/chat-message'', fetch_method = ''POST'',
          fetch_headers = [(''Content-Type'', ''application/json'')],
          fetch_body = TextBody (''{'' @ QuoteJSONString ''message'' @ '':''
                                 @ QuoteJSONString msg @ '','' @ QuoteJSONString ''session_id''
                                 @ '':'' @ QuoteJSONString s @ ''}'')\<rparr>])
   \<and> requested (sendChatMessage m net (JStr msg) JUndefined) =
        [\<lparr>fetch_url = BASE_URL m @ ''/chat-message'', fetch_method = ''POST'',
          fetch_headers = [(''Content-Type'', ''application/json'')],
          fetch_body = TextBody (''{'' @ QuoteJSONString ''message'' @ '':''
                                 @ QuoteJSONString msg @ ''}'')\<rparr>]
   \<and> requested (sendChatMessage m net (JStr msg) JNull) =
        [\<lparr>fetch_url = BASE_URL m @ ''/chat-message'', fetch_method = ''POST'',
          fetch_headers = [(''Content-Type'', ''application/json'')],
          fetch_body = TextBody (''{'' @ QuoteJSONString ''message'' @ '':''
                                 @ QuoteJSONString msg @ ''}'')\<rparr>]"
  by (simp add: sendChatMessage_def sendChatMessage_body_def fetch_then_json_def post_json_def
      default_param_def json_headers_def text_body_def List.map_filter_def join_comma_def)

text \<open>
  The example of the specification: the message hi with the session s1, and the message
  hi alone.
\<close>

theorem sendChatMessage_body_exact_witness:
  "''s1'' \<noteq> []
   \<and> requested (sendChatMessage tomatoApi_module remote_down (JStr ''hi'') (JStr ''s1'')) =
        [\<lparr>fetch_url = ''https://n8n.seedfarm.co.kr/webhook/chat-message'', fetch_method = ''POST'',
          fetch_headers = [(''Content-Type'', ''application/json'')],
          fetch_body = TextBody (''{'' @ [CHR 0x22] @ ''message'' @ [CHR 0x22] @ '':''
                                 @ [CHR 0x22] @ ''hi'' @ [CHR 0x22] @ '','' @ [CHR 0x22]
                                 @ ''session_id'' @ [CHR 0x22] @ '':'' @ [CHR 0x22] @ ''s1''
                                 @ [CHR 0x22] @ ''}'')\<rparr>]
   \<and> requested (sendChatMessage tomatoApi_module remote_down (JStr ''hi'') JUndefined) =
        [\<lparr>fetch_url = ''https://n8n.seedfarm.co.kr/webhook/chat-message'', fetch_method = ''POST'',
          fetch_headers = [(''Content-Type'', ''application/json'')],
          fetch_body = TextBody (''{'' @ [CHR 0x22] @ ''message'' @ [CHR 0x22] @ '':''
                                 @ [CHR 0x22] @ ''hi'' @ [CHR 0x22] @ ''}'')\<rparr>]"
  using sendChatMessage_body_exact [of "''s1''" tomatoApi_module remote_down "''hi''"]
  by (simp add: tomatoApi_module_def QuoteJSONString_def quote_char_def)

text \<open>
  The claim as it is written covers every session id string. At the empty string the
  body carries the message alone, which is not the text of the object with an empty
  session_id.
\<close>

theorem sendChatMessage_empty_session_counterexample:
  "map fetch_body (requested (sendChatMessage tomatoApi_module remote_down
                                (JStr ''hi'') (JStr [])))
     = [TextBody (''{'' @ [CHR 0x22] @ ''message'' @ [CHR 0x22] @ '':'' @ [CHR 0x22] @ ''hi''
                  @ [CHR 0x22] @ ''}'')]
   \<and> map fetch_body (requested (sendChatMessage tomatoApi_module remote_down
                                  (JStr ''hi'') (JStr [])))
     \<noteq> [TextBody (''{'' @ [CHR 0x22] @ ''message'' @ [CHR 0x22] @ '':'' @ [CHR 0x22] @ ''hi''
                  @ [CHR 0x22] @ '','' @ [CHR 0x22] @ ''session_id'' @ [CHR 0x22] @ '':''
                  @ [CHR 0x22] @ [CHR 0x22] @ ''}'')]"
  by (simp add: sendChatMessage_def fetch_then_json_def post_json_def text_body_def
      sendChatMessage_body_def default_param_def List.map_filter_def join_comma_def
      QuoteJSONString_def quote_char_def)

text \<open>
  Claim C10. For every message string, \<^verbatim>\<open>sendChatMessage\<close> called with the empty
  string as session id sends the JSON text of the object with the one key message: the
  empty string is treated as a session id left out, and no session_id key is written.
\<close>

theorem sendChatMessage_empty_session_omitted:
  "requested (sendChatMessage m net (JStr msg) (JStr [])) =
     [\<lparr>fetch_url = BASE_URL m @ ''/chat-message'', fetch_method = ''POST'',
       fetch_headers = [(''Content-Type'', ''application/json'')],
       fetch_body = TextBody (''{'' @ QuoteJSONString ''message'' @ '':''
                              @ QuoteJSONString msg @ ''}'')\<rparr>]"
  by (simp add: sendChatMessage_def sendChatMessage_body_def fetch_then_json_def post_json_def
      default_param_def json_headers_def text_body_def List.map_filter_def join_comma_def)

theorem sendChatMessage_empty_session_omitted_witness:
  "requested (sendChatMessage tomatoApi_module remote_down (JStr ''hi'') (JStr [])) =
     [\<lparr>fetch_url = ''https://n8n.seedfarm.co.kr/webhook/chat-message'', fetch_method = ''POST'',
       fetch_headers = [(''Content-Type'', ''application/json'')],
       fetch_body = TextBody (''{'' @ [CHR 0x22] @ ''message'' @ [CHR 0x22] @ '':''
                              @ [CHR 0x22] @ ''hi'' @ [CHR 0x22] @ ''}'')\<rparr>]"
  using sendChatMessage_empty_session_omitted [of tomatoApi_module remote_down "''hi''"]
  by (simp add: tomatoApi_module_def QuoteJSONString_def quote_char_def)

text \<open>
  Claim C9. For every thread id, \<^verbatim>\<open>getChatHistoryDetail\<close> and
  \<^verbatim>\<open>deleteChatHistory\<close> build their URL with the thread id passed through
  \<^verbatim>\<open>encodeURIComponent\<close>. The encoded text holds no ampersand, question mark or
  equals sign, so the query of the URL, read back, is the one parameter threadId with
  the encoded text as its value: a thread id cannot add a parameter. The base address is
  the one the module is loaded with.
\<close>

theorem threadId_percent_encoded:
  assumes "BASE_URL m = BASE_URL tomatoApi_module"
  shows "requested (getChatHistoryDetail m net threadId) =
           [\<lparr>fetch_url = BASE_URL m @ ''/chat-message/history/detail?threadId=''
                          @ encodeURIComponent threadId,
             fetch_method = ''GET'', fetch_headers = [], fetch_body = NoBody\<rparr>]
       \<and> requested (deleteChatHistory m net threadId) =
           [\<lparr>fetch_url = BASE_URL m @ ''/chat-message/history/delete?threadId=''
                          @ encodeURIComponent threadId,
             fetch_method = ''DELETE'', fetch_headers = [], fetch_body = NoBody\<rparr>]
       \<and> query_params (BASE_URL m @ ''/chat-message/history/detail?threadId=''
                        @ encodeURIComponent threadId)
           = [(''threadId'', encodeURIComponent threadId)]
       \<and> query_params (BASE_URL m @ ''/chat-message/history/delete?threadId=''
                        @ encodeURIComponent threadId)
           = [(''threadId'', encodeURIComponent threadId)]
       \<and> CHR ''&'' \<notin> set (encodeURIComponent threadId)
       \<and> CHR ''?'' \<notin> set (encodeURIComponent threadId)
       \<and> CHR ''='' \<notin> set (encodeURIComponent threadId)"
proof -
  have b: "BASE_URL m = ''https://n8n.seedfarm.co.kr/webhook''"
    using assms by (simp add: tomatoApi_module_def)
  have 1: "CHR ''?'' \<notin> set (BASE_URL m @ ''/chat-message/history/detail'')"
    unfolding b by simp
  have 2: "CHR ''?'' \<notin> set (BASE_URL m @ ''/chat-message/history/delete'')"
    unfolding b by simp
  have q1: "query_params (BASE_URL m @ ''/chat-message/history/detail?threadId=''
                          @ encodeURIComponent threadId)
              = [(''threadId'', encodeURIComponent threadId)]"
    using query_threadId[OF 1, of threadId] by simp
  have q2: "query_params (BASE_URL m @ ''/chat-message/history/delete?threadId=''
                          @ encodeURIComponent threadId)
              = [(''threadId'', encodeURIComponent threadId)]"
    using query_threadId[OF 2, of threadId] by simp
  show ?thesis
    using q1 q2 encodeURIComponent_no_amp[of threadId] encodeURIComponent_no_qm[of threadId]
      encodeURIComponent_no_eq[of threadId]
    by (simp add: getChatHistoryDetail_def deleteChatHistory_def fetch_then_json_def
        get_request_def)
qed

text \<open>A thread id that spells a second parameter is sent as one value.\<close>

theorem threadId_percent_encoded_witness:
  "BASE_URL tomatoApi_module = BASE_URL tomatoApi_module
   \<and> requested (getChatHistoryDetail tomatoApi_module remote_down (JStr ''a&b=c?d'')) =
       [\<lparr>fetch_url =
           ''https://n8n.seedfarm.co.kr/webhook/chat-message/history/detail?threadId=a%26b%3Dc%3Fd'',
         fetch_method = ''GET'', fetch_headers = [], fetch_body = NoBody\<rparr>]
   \<and> query_params
         ''https://n8n.seedfarm.co.kr/webhook/chat-message/history/detail?threadId=a%26b%3Dc%3Fd''
       = [(''threadId'', ''a%26b%3Dc%3Fd'')]"
  using threadId_percent_encoded [of tomatoApi_module remote_down "JStr ''a&b=c?d''"]
  by (simp add: tomatoApi_module_def encodeURIComponent_def uri_unreserved_def
      percent_encode_def hex_upper_def)

section \<open>The client library: what is returned\<close>

text \<open>
  Claim C7. Every endpoint function of the client library hands exactly one request to
  fetch (nothing is retried) and returns what decoding the response as JSON gives: the
  decoded body when there is one, a rejection with the error when fetch fails or the
  body does not decode. The status code of the response is never read: with any other
  status codes on the responses the function returns the same.
\<close>

theorem endpoint_returns_body_any_status:
  "(\<exists>rq. requested (tomatoApi m net c) = [rq]
         \<and> returned (tomatoApi m net c) =
             (case net rq of
                FetchRejects e \<Rightarrow> Rejected e
              | FetchResponds response \<Rightarrow>
                  (case response_json response of
                     Inl e \<Rightarrow> Rejected e
                   | Inr data \<Rightarrow> Resolved data)))
   \<and> returned (tomatoApi m (\<lambda>rq. with_status (st rq) (net rq)) c)
       = returned (tomatoApi m net c)"
proof -
  obtain rq where rq: "\<And>n. tomatoApi m n c = fetch_then_json n rq"
    using tomatoApi_one_fetch by blast
  have "returned (fetch_then_json (\<lambda>rq. with_status (st rq) (net rq)) rq)
        = returned (fetch_then_json net rq)"
    by (cases "net rq") (simp_all add: fetch_then_json_def)
  then show ?thesis unfolding rq by (auto simp add: fetch_then_json_def)
qed

theorem endpoint_returns_body_any_status_witness:
  "requested (tomatoApi tomatoApi_module
                (remote_answers 500 (JObj [(''success'', JBool False)])) GetRealtimeData)
     = [\<lparr>fetch_url = ''https://n8n.seedfarm.co.kr/webhook/data-realtime'',
         fetch_method = ''GET'', fetch_headers = [], fetch_body = NoBody\<rparr>]
   \<and> returned (tomatoApi tomatoApi_module
                  (remote_answers 500 (JObj [(''success'', JBool False)])) GetRealtimeData)
     = Resolved (JObj [(''success'', JBool False)])
   \<and> returned (tomatoApi tomatoApi_module
                  (\<lambda>rq. with_status 200
                           (remote_answers 500 (JObj [(''success'', JBool False)]) rq))
                  GetRealtimeData)
     = Resolved (JObj [(''success'', JBool False)])
   \<and> returned (tomatoApi tomatoApi_module remote_down (DeleteChatHistory (JStr ''t1'')))
     = Rejected (JsError ''fetch failed'')
   \<and> returned (tomatoApi tomatoApi_module remote_not_json
                  (SendChatMessage (JStr ''hi'') JUndefined))
     = Rejected (JsError ''Unexpected token < in JSON at position 0'')"
  using endpoint_returns_body_any_status
          [of tomatoApi_module "remote_answers 500 (JObj [(''success'', JBool False)])"
              GetRealtimeData "\<lambda>rq. 200"]
  by (simp add: tomatoApi_module_def remote_answers_def remote_down_def remote_not_json_def
      getRealtimeData_def deleteChatHistory_def sendChatMessage_def fetch_then_json_def
      get_request_def)

section \<open>The utilities\<close>




text \<open>
  Claim C6. For every argument, \<^verbatim>\<open>setBaseUrl\<close> leaves the base address as it is,
  writes its warning to the console, and changes nothing else: every endpoint function
  called afterwards does what it did before, against the same address.
\<close>

theorem setBaseUrl_inert:
  "BASE_URL (setBaseUrl m url) = BASE_URL m
   \<and> console (setBaseUrl m url) = console m @ [setBaseUrl_warning]
   \<and> tomatoApi (setBaseUrl m url) net c = tomatoApi m net c"
  by (cases c)
     (simp_all add: setBaseUrl_def getRealtimeData_def getHistoryData_def getDailySummary_def
        captureNow_def captureTest_def startMonitoring_def stopMonitoring_def getCameraStatus_def
        setCaptureInterval_def setWhiteBalance_def sendChatMessage_def analyzeImage_def
        diagnoseDisease_def getChatHistoryList_def getChatHistoryDetail_def deleteChatHistory_def
        getMarketPrice_def getPriceCompare_def getPriceHistory_def predictYield_def
        getDiaryList_def saveDiary_def getHomeData_def appChat_def appAnalyze_def)

theorem setBaseUrl_inert_witness:
  "BASE_URL (setBaseUrl tomatoApi_module (JStr ''http://192.168.49.200:5679/webhook''))
     = ''https://n8n.seedfarm.co.kr/webhook''
   \<and> console (setBaseUrl tomatoApi_module (JStr ''http://192.168.49.200:5679/webhook''))
     = [setBaseUrl_warning]
   \<and> requested (tomatoApi (setBaseUrl tomatoApi_module
                              (JStr ''http://192.168.49.200:5679/webhook''))
                   remote_down GetHomeData)
     = [\<lparr>fetch_url = ''https://n8n.seedfarm.co.kr/webhook/app/home'', fetch_method = ''GET'',
         fetch_headers = [], fetch_body = NoBody\<rparr>]"
  using setBaseUrl_inert [of tomatoApi_module "JStr ''http://192.168.49.200:5679/webhook''"
                             remote_down GetHomeData]
  by (simp add: tomatoApi_module_def getHomeData_def fetch_then_json_def get_request_def)

section \<open>The proxy server: what is forwarded and answered\<close>

text \<open>No handler hands more than one request to fetch: nothing is retried.\<close>

lemma proxy_routes_fetch_at_most_once:
  "length (outbound (proxy_capture_analyze base net boundary req)) \<le> 1"
  "length (outbound (proxy_disease_diagnosis base net req)) \<le> 1"
  "length (outbound (proxy_chat_message base net req)) \<le> 1"
  "length (outbound (proxy_all base net req)) \<le> 1"
  by (simp_all add: proxy_capture_analyze_def proxyFormData_def proxy_disease_diagnosis_def
      proxy_chat_message_def proxy_all_def Let_def
      split: option.splits sum.splits)

text \<open>
  A forward that fails is answered with status 500 and the message of the error. The
  handlers of capture-analyze and disease-diagnosis add the hint.
\<close>

lemma capture_analyze_failure_response:
  assumes "outbound (proxy_capture_analyze base net boundary req) = [rq]"
      and "relay net rq = Inl e"
  shows "responded (proxy_capture_analyze base net boundary req) =
           \<lparr>res_status = 500,
            res_json = JObj [(''success'', JBool False), (''error'', JStr (error_message e)),
                             (''hint'', JStr unreachable_hint)]\<rparr>"
  using assms
  by (auto simp add: proxy_capture_analyze_def proxyFormData_def Let_def
      split: option.splits sum.splits)

lemma disease_diagnosis_failure_response:
  assumes "outbound (proxy_disease_diagnosis base net req) = [rq]"
      and "relay net rq = Inl e"
  shows "responded (proxy_disease_diagnosis base net req) =
           \<lparr>res_status = 500,
            res_json = JObj [(''success'', JBool False), (''error'', JStr (error_message e)),
                             (''hint'', JStr unreachable_hint)]\<rparr>"
  using assms
  by (auto simp add: proxy_disease_diagnosis_def Let_def split: sum.splits if_splits)

text \<open>The handlers of chat-message and of the generic route answer without the hint.\<close>

lemma chat_message_failure_response:
  assumes "outbound (proxy_chat_message base net req) = [rq]"
      and "relay net rq = Inl e"
  shows "responded (proxy_chat_message base net req) =
           \<lparr>res_status = 500,
            res_json = JObj [(''success'', JBool False), (''error'', JStr (error_message e))]\<rparr>"
  using assms
  by (auto simp add: proxy_chat_message_def Let_def split: sum.splits if_splits)

lemma proxy_all_failure_response:
  assumes "outbound (proxy_all base net req) = [rq]"
      and "relay net rq = Inl e"
  shows "responded (proxy_all base net req) =
           \<lparr>res_status = 500,
            res_json = JObj [(''success'', JBool False), (''error'', JStr (error_message e))]\<rparr>"
  using assms
  by (auto simp add: proxy_all_def Let_def split: sum.splits)

text \<open>
  Claim C1. A request to capture-analyze without a file, to disease-diagnosis without
  the image field, or to chat-message without the message field hands nothing to fetch
  and is answered with status 400 and a JSON error (for the two JSON routes the body is
  what the body parsers leave: an object or an array, never undefined or null). A
  request is handed to fetch only when the field is there.
\<close>

theorem typed_routes_require_field:
  "(req_file req = None \<longrightarrow>
      responded (proxy_capture_analyze base net boundary req) =
        \<lparr>res_status = 400,
         res_json = JObj [(''success'', JBool False),
                          (''error'', JStr file_required_message)]\<rparr>
      \<and> outbound (proxy_capture_analyze base net boundary req) = [])
   \<and> (get_prop (req_body req) ''image'' = JUndefined \<longrightarrow>
      outbound (proxy_disease_diagnosis base net req) = []
      \<and> (req_body req \<noteq> JUndefined \<and> req_body req \<noteq> JNull \<longrightarrow>
           responded (proxy_disease_diagnosis base net req) =
             \<lparr>res_status = 400,
              res_json = JObj [(''success'', JBool False),
                               (''error'', JStr image_required_message)]\<rparr>))
   \<and> (get_prop (req_body req) ''message'' = JUndefined \<longrightarrow>
      outbound (proxy_chat_message base net req) = []
      \<and> (req_body req \<noteq> JUndefined \<and> req_body req \<noteq> JNull \<longrightarrow>
           responded (proxy_chat_message base net req) =
             \<lparr>res_status = 400,
              res_json = JObj [(''success'', JBool False),
                               (''error'', JStr message_required_message)]\<rparr>))
   \<and> (outbound (proxy_capture_analyze base net boundary req) \<noteq> [] \<longrightarrow> req_file req \<noteq> None)
   \<and> (outbound (proxy_disease_diagnosis base net req) \<noteq> [] \<longrightarrow>
        get_prop (req_body req) ''image'' \<noteq> JUndefined)
   \<and> (outbound (proxy_chat_message base net req) \<noteq> [] \<longrightarrow>
        get_prop (req_body req) ''message'' \<noteq> JUndefined)"
  by (auto simp add: proxy_capture_analyze_def proxyFormData_def proxy_disease_diagnosis_def
      proxy_chat_message_def destructure_def Let_def split: option.splits sum.splits)

text \<open>A request with an empty object as body and no file, and one with a message.\<close>

theorem typed_routes_require_field_witness:
  "req_file empty_request = None
   \<and> get_prop (req_body empty_request) ''image'' = JUndefined
   \<and> get_prop (req_body empty_request) ''message'' = JUndefined
   \<and> req_body empty_request \<noteq> JUndefined \<and> req_body empty_request \<noteq> JNull
   \<and> res_status (responded (proxy_capture_analyze ''https://n8n.seedfarm.co.kr/webhook''
                                remote_down ''b'' empty_request)) = 400
   \<and> outbound (proxy_capture_analyze ''https://n8n.seedfarm.co.kr/webhook''
                  remote_down ''b'' empty_request) = []
   \<and> res_status (responded (proxy_disease_diagnosis ''https://n8n.seedfarm.co.kr/webhook''
                                remote_down empty_request)) = 400
   \<and> outbound (proxy_disease_diagnosis ''https://n8n.seedfarm.co.kr/webhook''
                  remote_down empty_request) = []
   \<and> res_status (responded (proxy_chat_message ''https://n8n.seedfarm.co.kr/webhook''
                                remote_down empty_request)) = 400
   \<and> outbound (proxy_chat_message ''https://n8n.seedfarm.co.kr/webhook''
                  remote_down empty_request) = []
   \<and> outbound (proxy_chat_message ''https://n8n.seedfarm.co.kr/webhook''
                  remote_down chat_request) \<noteq> []
   \<and> get_prop (req_body chat_request) ''message'' \<noteq> JUndefined"
  using typed_routes_require_field [of empty_request "''https://n8n.seedfarm.co.kr/webhook''"
          remote_down "''b''"]
  by (simp add: empty_request_def chat_request_def proxy_capture_analyze_def proxyFormData_def
      proxy_disease_diagnosis_def proxy_chat_message_def destructure_def Let_def relay_def
      remote_down_def)




text \<open>
  Claim C3 says that every proxy route answers a failed forward with status 500, the
  message of the error and the hint that the remote may be unreachable. With the remote
  down, the chat-message route and the generic route answer with status 500 and the
  message, and their JSON body has no hint.
\<close>

theorem chat_and_generic_failure_without_hint:
  "responded (proxy_chat_message ''https://n8n.seedfarm.co.kr/webhook'' remote_down chat_request)
     = \<lparr>res_status = 500,
        res_json = JObj [(''success'', JBool False), (''error'', JStr ''fetch failed'')]\<rparr>
   \<and> get_prop (res_json (responded (proxy_chat_message ''https://n8n.seedfarm.co.kr/webhook''
                                       remote_down chat_request))) ''hint'' = JUndefined
   \<and> responded (proxy_all ''https://n8n.seedfarm.co.kr/webhook'' remote_down put_foo_bar)
     = \<lparr>res_status = 500,
        res_json = JObj [(''success'', JBool False), (''error'', JStr ''fetch failed'')]\<rparr>
   \<and> get_prop (res_json (responded (proxy_all ''https://n8n.seedfarm.co.kr/webhook''
                                       remote_down put_foo_bar))) ''hint'' = JUndefined"
  by (simp add: chat_request_def put_foo_bar_def proxy_chat_message_def proxy_all_def
      destructure_def Let_def relay_def remote_down_def)

text \<open>
  Claim C8. When the message of the incoming body is truthy, the chat-message route
  forwards one POST whose body is the JSON text of the object with the one key message
  and that value: nothing else of the incoming body, the session id included, is
  forwarded.
\<close>

theorem proxy_chat_message_forwards_message_only:
  assumes "truthy (get_prop (req_body req) ''message'')"
  shows "\<exists>t. JSON_stringify (get_prop (req_body req) ''message'') = Some t
           \<and> outbound (proxy_chat_message base net req) =
               [\<lparr>fetch_url = base @ ''/chat-message'', fetch_method = ''POST'',
                 fetch_headers = [(''Content-Type'', ''application/json'')],
                 fetch_body = TextBody (''{'' @ QuoteJSONString ''message'' @ '':'' @ t
                                        @ ''}'')\<rparr>]"
proof -
  from assms have nb: "req_body req \<noteq> JUndefined" "req_body req \<noteq> JNull" by auto
  from truthy_stringify[OF assms] obtain t where
    t: "JSON_stringify (get_prop (req_body req) ''message'') = Some t" by blast
  show ?thesis
    using assms nb t
    by (auto simp add: proxy_chat_message_def destructure_def Let_def post_json_def
        json_headers_def text_body_def List.map_filter_def join_comma_def split: sum.splits)
qed

text \<open>The body with the message hi and the session s1 is forwarded as the message alone.\<close>

theorem proxy_chat_message_forwards_message_only_witness:
  "truthy (get_prop (req_body chat_request) ''message'')
   \<and> outbound (proxy_chat_message ''https://n8n.seedfarm.co.kr/webhook'' remote_down
                  chat_request) =
       [\<lparr>fetch_url = ''https://n8n.seedfarm.co.kr/webhook/chat-message'',
         fetch_method = ''POST'',
         fetch_headers = [(''Content-Type'', ''application/json'')],
         fetch_body = TextBody (''{'' @ [CHR 0x22] @ ''message'' @ [CHR 0x22] @ '':''
                                @ [CHR 0x22] @ ''hi'' @ [CHR 0x22] @ ''}'')\<rparr>]"
  using proxy_chat_message_forwards_message_only
          [of chat_request "''https://n8n.seedfarm.co.kr/webhook''" remote_down]
  by (simp add: chat_request_def QuoteJSONString_def quote_char_def)


end
